theory Spec2Isabelle
  imports Complex_Main "HOL-Library.Sublist"
begin

section \<open>Data model (core.py)\<close>

text \<open>
  A Python string (\<open>str\<close>) is the list of its Unicode code points, each a natural number;
  \<open>ascii\<close> turns an ASCII literal of the code into such a list. Server identifiers, the
  names of the lifecycle states and the IP texts, which the code only stores and
  compares, are \<open>string\<close>. Python integers are \<open>int\<close>, floats that are only stored or
  reset to \<open>0.0\<close> are \<open>real\<close>. A process handle (\<open>psutil.Popen\<close>) is the natural number
  identifying the spawned process.
\<close>

type_synonym pystr = "nat list"

definition ascii :: "string \<Rightarrow> pystr" where
  "ascii s = map of_char s"

record ServerConfig =
  name :: string
  engine_path :: pystr
  project_path :: pystr
  port :: int
  custom_params :: pystr
  id_cfg :: string

text \<open>The reader thread object as the window sees it: its process and its stop event.\<close>

record LogReaderThread =
  reader_server_id :: string
  popen :: nat
  stop_flag :: bool

record ServerRuntime =
  config :: ServerConfig
  process :: "nat option"
  ps :: "nat option"
  reader :: "LogReaderThread option"
  state :: string
  private_ip :: string
  public_ip :: string
  cpu_percent :: real
  mem_mb :: real
  log_lines :: "pystr list"
  last_started_ts :: real

text \<open>The dataclass defaults: \<open>ServerRuntime(config=cfg)\<close>.\<close>

definition new_runtime :: "ServerConfig \<Rightarrow> ServerRuntime" where
  "new_runtime cfg =
     \<lparr>config = cfg, process = None, ps = None, reader = None, state = ''Offline'',
      private_ip = ''Unknown'', public_ip = ''Unknown'', cpu_percent = 0, mem_mb = 0,
      log_lines = [], last_started_ts = 0\<rparr>"

subsection \<open>The bounded log buffer\<close>

text \<open>
  \<open>append_log\<close> appends and then deletes the slice \<open>[0 : len - max_lines]\<close> when the
  list is longer than \<open>max_lines\<close>. Every caller uses the default \<open>max_lines = 8000\<close>.
\<close>

definition append_log_lines :: "pystr list \<Rightarrow> pystr \<Rightarrow> nat \<Rightarrow> pystr list" where
  "append_log_lines ls text max_lines =
     (let ls' = ls @ [text]
      in if length ls' > max_lines then drop (length ls' - max_lines) ls' else ls')"

definition max_lines_default :: nat where
  "max_lines_default = 8000"

definition append_log :: "ServerRuntime \<Rightarrow> pystr \<Rightarrow> ServerRuntime" where
  "append_log srv text =
     srv\<lparr>log_lines := append_log_lines (log_lines srv) text max_lines_default\<rparr>"

section \<open>The interpreter: Unicode tables and the limit on integer conversions\<close>

text \<open>
  What the functions below take from the Python interpreter beyond the ASCII range, which
  differs from one version of Python (and of its Unicode database) to the next:
  the decimal value of a code point that is a decimal digit (these are the characters
  that \<open>\d\<close> of the \<open>re\<close> module matches and that \<open>int()\<close> converts); the result of
  \<open>str.lower()\<close> for a non-ASCII code point (one to three code points; for the capital
  sigma it depends on the characters before and after); and the limit on the number of
  digits in a conversion between \<open>int\<close> and \<open>str\<close> (\<open>sys.get_int_max_str_digits()\<close>, 4300
  by default, 0 for no limit).
\<close>

record pyenv =
  decimal_value :: "nat \<Rightarrow> nat option"
  lower_nonascii :: "pystr \<Rightarrow> nat \<Rightarrow> pystr \<Rightarrow> pystr"
  max_str_digits :: nat

text \<open>In every interpreter the ASCII decimal digits are \<open>0\<close> to \<open>9\<close>, with their values.\<close>

definition ascii_digits :: "pyenv \<Rightarrow> bool" where
  "ascii_digits py =
     (\<forall>c < 128. decimal_value py c = (if 48 \<le> c \<and> c \<le> 57 then Some (c - 48) else None))"

section \<open>Strings: lower-casing, decimal numerals\<close>

definition ascii_lower :: "nat \<Rightarrow> nat" where
  "ascii_lower c = (if 65 \<le> c \<and> c \<le> 90 then c + 32 else c)"

text \<open>
  \<open>str.lower()\<close> maps the characters one by one and concatenates the results: an ASCII
  character gives its lower-case letter, or itself.
\<close>

definition lower_char :: "pyenv \<Rightarrow> pystr \<Rightarrow> nat \<Rightarrow> pystr \<Rightarrow> pystr" where
  "lower_char py left c right =
     (if c < 128 then [ascii_lower c] else lower_nonascii py left c right)"

fun lower_from :: "pyenv \<Rightarrow> pystr \<Rightarrow> pystr \<Rightarrow> pystr" where
  "lower_from py left [] = []"
| "lower_from py left (c # cs) =
     lower_char py left c cs @ lower_from py (left @ [c]) cs"

definition lower :: "pyenv \<Rightarrow> pystr \<Rightarrow> pystr" where
  "lower py s = lower_from py [] s"

definition is_digit :: "pyenv \<Rightarrow> nat \<Rightarrow> bool" where
  "is_digit py c = (decimal_value py c \<noteq> None)"

text \<open>The number that a run of decimal digits denotes.\<close>

definition digits_value :: "pyenv \<Rightarrow> pystr \<Rightarrow> int" where
  "digits_value py s =
     foldl (\<lambda>a c. 10 * a + (case decimal_value py c of Some v \<Rightarrow> int v | None \<Rightarrow> 0)) 0 s"

text \<open>
  A conversion between \<open>int\<close> and \<open>str\<close> raises \<open>ValueError\<close> when the number of digits is
  above the limit of the interpreter; no check is made up to 640 digits
  (\<open>sys.int_info.str_digits_check_threshold\<close>).
\<close>

definition exceeds_limit :: "pyenv \<Rightarrow> nat \<Rightarrow> bool" where
  "exceeds_limit py n = (640 < n \<and> 0 < max_str_digits py \<and> max_str_digits py < n)"

text \<open>\<open>int(s)\<close> on a non-empty run of decimal digits; \<open>None\<close> is the \<open>ValueError\<close>.\<close>

definition py_int :: "pyenv \<Rightarrow> pystr \<Rightarrow> int option" where
  "py_int py s = (if exceeds_limit py (length s) then None else Some (digits_value py s))"

text \<open>The decimal numeral of a natural number and of an integer.\<close>

fun decimal :: "nat \<Rightarrow> pystr" where
  "decimal n = (if n < 10 then [48 + n] else decimal (n div 10) @ [48 + n mod 10])"

declare decimal.simps [simp del]

definition str_int :: "int \<Rightarrow> pystr" where
  "str_int i = (if i < 0 then 45 # decimal (nat (- i)) else decimal (nat i))"

text \<open>\<open>str(i)\<close>, as an f-string renders an integer; \<open>None\<close> is the \<open>ValueError\<close>.\<close>

definition py_str :: "pyenv \<Rightarrow> int \<Rightarrow> pystr option" where
  "py_str py i =
     (if exceeds_limit py (length (decimal (nat \<bar>i\<bar>))) then None else Some (str_int i))"

section \<open>The log classifier\<close>

text \<open>Python's \<open>x in low\<close> on strings is \<open>sublist x low\<close>; \<open>startswith\<close> is \<open>prefix\<close>.\<close>

definition classify_log_line :: "pyenv \<Rightarrow> pystr \<Rightarrow> string" where
  "classify_log_line py line =
     (let low = lower py line
      in if sublist (ascii '': error:'') low \<or> sublist (ascii '' error: '') low
            \<or> prefix (ascii ''error:'') low
         then ''error''
         else if sublist (ascii '': warning:'') low \<or> sublist (ascii '' warning: '') low
                 \<or> prefix (ascii ''warning:'') low
         then ''warning''
         else ''info'')"

section \<open>The effective port\<close>

text \<open>
  \<open>re.search(r"-(?:Port|NetPort)=(\d+)", s, flags=re.I)\<close>: the leftmost position at
  which the pattern matches; the group is the longest run of decimal digits after the
  \<open>=\<close>. \<open>strip_ci p s\<close> consumes the (lower-case) literal \<open>p\<close> from the front of \<open>s\<close>,
  ignoring letter case: for the letters of this pattern, \<open>re.I\<close> matches the two ASCII
  forms and no other character.
\<close>

fun strip_ci :: "pystr \<Rightarrow> pystr \<Rightarrow> pystr option" where
  "strip_ci [] s = Some s"
| "strip_ci (p # pat) [] = None"
| "strip_ci (p # pat) (c # cs) = (if ascii_lower c = p then strip_ci pat cs else None)"

definition try_alt :: "pyenv \<Rightarrow> pystr \<Rightarrow> pystr \<Rightarrow> pystr option" where
  "try_alt py p s =
     (case strip_ci p s of
        None \<Rightarrow> None
      | Some r \<Rightarrow> (let d = takeWhile (is_digit py) r in if d = [] then None else Some d))"

definition match_at :: "pyenv \<Rightarrow> pystr \<Rightarrow> pystr option" where
  "match_at py s =
     (case try_alt py (ascii ''-port='') s of
        Some d \<Rightarrow> Some d
      | None \<Rightarrow> try_alt py (ascii ''-netport='') s)"

fun re_search :: "pyenv \<Rightarrow> pystr \<Rightarrow> pystr option" where
  "re_search py [] = None"
| "re_search py (c # cs) =
     (case match_at py (c # cs) of Some d \<Rightarrow> Some d | None \<Rightarrow> re_search py cs)"

text \<open>\<open>effective_port\<close>; \<open>None\<close> is the \<open>ValueError\<close> of \<open>int()\<close>.\<close>

definition effective_port :: "pyenv \<Rightarrow> ServerConfig \<Rightarrow> int option" where
  "effective_port py cfg =
     (case re_search py (custom_params cfg) of
        Some d \<Rightarrow> py_int py d
      | None \<Rightarrow> Some (port cfg))"


text \<open>
  The words of the specification, "the custom arguments contain \<open>-Port=N\<close>", for a
  position of the text: at offset \<open>i\<close> the text reads \<open>-Port=\<close> or \<open>-NetPort=\<close>, the
  letters in either case, and goes on with a decimal digit.
\<close>

definition reads_key :: "string \<Rightarrow> pystr \<Rightarrow> bool" where
  "reads_key key s =
     (length key \<le> length s \<and> map ascii_lower (take (length key) s) = ascii key)"

definition port_token_at :: "pyenv \<Rightarrow> pystr \<Rightarrow> nat \<Rightarrow> bool" where
  "port_token_at py s i =
     (\<exists>key \<in> set [''-port='', ''-netport=''].
        reads_key key (drop i s)
        \<and> (case drop (i + length key) s of [] \<Rightarrow> False | c # _ \<Rightarrow> is_digit py c))"

section \<open>Building the command line\<close>

text \<open>
  \<open>shlex.split(s)\<close> of the Python standard library, in its default POSIX mode with
  \<open>whitespace_split\<close> set and no comment characters: the character loop of
  \<open>shlex.read_token\<close>, run until the input is used up. The lexer state is \<open>Sp\<close> (the
  state \<open>' '\<close>), \<open>Word\<close> (the state \<open>'a'\<close>), \<open>Quote q\<close> (inside the quote \<open>q\<close>) or
  \<open>Esc st\<close> (after a backslash, to resume in \<open>st\<close>). \<open>None\<close> is the \<open>ValueError\<close> raised
  for an unclosed quote or a trailing backslash. The white space of \<open>shlex\<close> is space,
  tab, carriage return and line feed; the quotes are \<open>'\<close> and \<open>"\<close>.
\<close>

datatype lex_state = Sp | Word | Quote nat | Esc lex_state

definition is_space :: "nat \<Rightarrow> bool" where
  "is_space c = (c \<in> set [32, 9, 13, 10])"

definition is_quote :: "nat \<Rightarrow> bool" where
  "is_quote c = (c = 39 \<or> c = 34)"

definition is_escape :: "nat \<Rightarrow> bool" where
  "is_escape c = (c = 92)"

text \<open>A token read by \<open>read_token\<close>: an empty unquoted token ends the iteration.\<close>

definition emit :: "pystr \<Rightarrow> bool \<Rightarrow> pystr list option \<Rightarrow> pystr list option" where
  "emit tok quoted rest =
     (if \<not> quoted \<and> tok = [] then Some []
      else case rest of None \<Rightarrow> None | Some ts \<Rightarrow> Some (tok # ts))"

fun shlex_run :: "lex_state \<Rightarrow> bool \<Rightarrow> pystr \<Rightarrow> pystr \<Rightarrow> pystr list option" where
  "shlex_run Sp quoted tok [] = emit tok quoted (Some [])"
| "shlex_run Sp quoted tok (c # cs) =
     (if is_space c then
        (if tok \<noteq> [] \<or> quoted then emit tok quoted (shlex_run Sp False [] cs)
         else shlex_run Sp quoted tok cs)
      else if is_escape c then shlex_run (Esc Word) quoted tok cs
      else if is_quote c then shlex_run (Quote c) quoted tok cs
      else shlex_run Word quoted [c] cs)"
| "shlex_run (Quote q) quoted tok [] = None"
| "shlex_run (Quote q) quoted tok (c # cs) =
     (if c = q then shlex_run Word True tok cs
      else if is_escape c \<and> q = 34 then shlex_run (Esc (Quote q)) True tok cs
      else shlex_run (Quote q) True (tok @ [c]) cs)"
| "shlex_run (Esc st) quoted tok [] = None"
| "shlex_run (Esc st) quoted tok (c # cs) =
     (case st of
        Quote q \<Rightarrow>
          shlex_run st quoted
            ((if \<not> is_escape c \<and> c \<noteq> q then tok @ [92] else tok) @ [c]) cs
      | _ \<Rightarrow> shlex_run st quoted (tok @ [c]) cs)"
| "shlex_run Word quoted tok [] = emit tok quoted (Some [])"
| "shlex_run Word quoted tok (c # cs) =
     (if is_space c then
        (if tok \<noteq> [] \<or> quoted then emit tok quoted (shlex_run Sp False [] cs)
         else shlex_run Sp quoted tok cs)
      else if is_quote c then shlex_run (Quote c) quoted tok cs
      else if is_escape c then shlex_run (Esc Word) quoted tok cs
      else shlex_run Word quoted (tok @ [c]) cs)"

definition shlex_split :: "pystr \<Rightarrow> pystr list option" where
  "shlex_split s = shlex_run Sp False [] s"

text \<open>
  \<open>str.strip()\<close> leaves the empty string exactly when every character is white space,
  that is, a code point for which \<open>str.isspace()\<close> holds: the ASCII controls 0x09 to
  0x0D and 0x1C to 0x1F, the space, U+0085, U+00A0, U+1680, U+2000 to U+200A, U+2028,
  U+2029, U+202F, U+205F and U+3000.
\<close>

definition py_space :: "nat \<Rightarrow> bool" where
  "py_space c =
     ((9 \<le> c \<and> c \<le> 13) \<or> (28 \<le> c \<and> c \<le> 32) \<or> c = 0x85 \<or> c = 0xA0 \<or> c = 0x1680
      \<or> (0x2000 \<le> c \<and> c \<le> 0x200A) \<or> c = 0x2028 \<or> c = 0x2029 \<or> c = 0x202F
      \<or> c = 0x205F \<or> c = 0x3000)"

definition strip_empty :: "pystr \<Rightarrow> bool" where
  "strip_empty s = (\<forall>c \<in> set s. py_space c)"


text \<open>
  \<open>build_command\<close>. The result of \<open>resolve_engine_executable\<close> (a search of the file
  system) is the parameter \<open>resolved\<close>; \<open>x or y\<close> takes \<open>y\<close> when \<open>x\<close> is \<open>None\<close> or
  empty. \<open>None\<close> is a \<open>ValueError\<close>: that of the f-string for a port above the
  conversion limit, or that of \<open>shlex.split\<close>.
\<close>

definition build_command :: "pyenv \<Rightarrow> pystr option \<Rightarrow> ServerConfig \<Rightarrow> pystr list option" where
  "build_command py resolved cfg =
     (let exe = (case resolved of None \<Rightarrow> engine_path cfg
                 | Some e \<Rightarrow> if e = [] then engine_path cfg else e);
          cmd = [exe] @ (if project_path cfg \<noteq> [] then [project_path cfg] else [])
                @ [ascii ''-server'', ascii ''-unattended'', ascii ''-stdout'',
                   ascii ''-FullStdOutLogOutput''];
          params_lower = lower py (custom_params cfg)
      in case (if \<not> sublist (ascii ''-port='') params_lower
                  \<and> \<not> sublist (ascii ''-netport='') params_lower
               then map_option (\<lambda>t. cmd @ [ascii ''-Port='' @ t]) (py_str py (port cfg))
               else Some cmd) of
           None \<Rightarrow> None
         | Some cmd \<Rightarrow>
             if \<not> strip_empty (custom_params cfg)
             then (case shlex_split (custom_params cfg) of
                     None \<Rightarrow> None
                   | Some extra \<Rightarrow> Some (cmd @ extra))
             else Some cmd)"





section \<open>The reader thread (main_window.py, LogReaderThread.run)\<close>

text \<open>
  One run of the thread sees what its process gives it: whether a \<open>stdout\<close> stream is
  attached, the lines the stream yields until it closes (each with the value of the stop
  event at the moment the loop tests it), whether reading ends at end of file or by an
  exception, and how \<open>popen.wait()\<close> ends: it returns the exit code, it returns \<open>None\<close>
  (\<open>psutil\<close> does so when the exit status is not available to it, for one when another
  thread has waited for the process before), or it raises. A stream that never closes
  gives no run to speak of; the lines are a finite list.
\<close>

datatype stream_end = EndOfFile | ReadError

datatype wait_end = WaitReturns "int option" | WaitRaises

record reader_env =
  stdout_lines :: "(pystr \<times> bool) list option"
  stream_end :: stream_end
  wait_result :: wait_end

datatype reader_event = LineReceived string pystr | ProcessFinished string int

text \<open>The \<open>for\<close> loop: the events emitted, and whether the loop left by \<open>break\<close>.\<close>

fun read_loop :: "string \<Rightarrow> (pystr \<times> bool) list \<Rightarrow> reader_event list \<times> bool" where
  "read_loop sid [] = ([], False)"
| "read_loop sid ((line, stop_set) # rest) =
     (if stop_set then ([], True)
      else (let (evs, broke) = read_loop sid rest in (LineReceived sid line # evs, broke)))"

text \<open>
  \<open>run\<close>: the events in the order of emission, and whether the thread ends by an
  exception. A read error met by the loop passes through the \<open>finally\<close> block. There
  \<open>rc\<close> is the result of \<open>wait()\<close>, or \<open>-1\<close> when \<open>wait()\<close> raises; \<open>int(rc)\<close> is evaluated
  outside the inner \<open>try\<close>, and for \<open>rc = None\<close> it raises \<open>TypeError\<close> before
  \<open>process_finished\<close> is emitted.
\<close>

definition reader_run :: "reader_env \<Rightarrow> string \<Rightarrow> reader_event list \<times> bool" where
  "reader_run env sid =
     (let (evs, raised) =
            (case stdout_lines env of
               None \<Rightarrow> ([], False)
             | Some ls \<Rightarrow>
                 (let (evs, broke) = read_loop sid ls
                  in (evs, \<not> broke \<and> stream_end env = ReadError)));
          rc = (case wait_result env of WaitReturns r \<Rightarrow> r | WaitRaises \<Rightarrow> Some (- 1))
      in case rc of
           None \<Rightarrow> (evs, True)
         | Some code \<Rightarrow> (evs @ [ProcessFinished sid code], raised))"

fun is_finished :: "reader_event \<Rightarrow> bool" where
  "is_finished (ProcessFinished _ _) = True"
| "is_finished (LineReceived _ _) = False"

section \<open>The stop worker (main_window.py, StopWorker.run)\<close>









section \<open>The window: per-server state and its operations (main_window.py)\<close>

text \<open>
  The window's part of the supervision: the table of runtimes, the stop workers in
  flight and the active server. Widgets, the persisted configuration list and the
  public-IP thread are outside the model, and the refresh of a table row is taken to
  return. A callback \<open>on_done\<close> is either absent or the \<open>really_delete\<close> closure of
  \<open>_delete_server\<close>.
\<close>

record StopWorker =
  worker_server_id :: string
  worker_process :: nat

record MainWindow =
  servers :: "string \<rightharpoonup> ServerRuntime"
  stop_workers :: "string \<rightharpoonup> StopWorker"
  active_server_id :: "string option"

datatype callback = ReallyDelete string

definition really_delete :: "string \<Rightarrow> MainWindow \<Rightarrow> MainWindow" where
  "really_delete sid w =
     w\<lparr>servers := (servers w)(sid := None),
       active_server_id :=
         (if active_server_id w = Some sid then None else active_server_id w)\<rparr>"

fun run_on_done :: "callback option \<Rightarrow> MainWindow \<Rightarrow> MainWindow" where
  "run_on_done None w = w"
| "run_on_done (Some (ReallyDelete sid)) w = really_delete sid w"

definition stop_finalize :: "string \<Rightarrow> callback option \<Rightarrow> MainWindow \<Rightarrow> MainWindow" where
  "stop_finalize sid on_done w =
     (let w1 = w\<lparr>stop_workers := (stop_workers w)(sid := None)\<rparr>
      in case servers w1 sid of
           None \<Rightarrow> run_on_done on_done w1
         | Some srv \<Rightarrow>
             run_on_done on_done
               (w1\<lparr>servers := (servers w1)(sid \<mapsto>
                      srv\<lparr>state := ''Stopped'', process := None, ps := None,
                          cpu_percent := 0, mem_mb := 0\<rparr>)\<rparr>))"

definition stop_server :: "string \<Rightarrow> callback option \<Rightarrow> MainWindow \<Rightarrow> MainWindow" where
  "stop_server sid on_done w =
     (case servers w sid of
        None \<Rightarrow> w
      | Some srv \<Rightarrow>
          (let srv1 = srv\<lparr>state := ''Stopping''\<rparr>;
               srv2 = (case reader srv1 of
                         None \<Rightarrow> srv1
                       | Some r \<Rightarrow> srv1\<lparr>reader := Some (r\<lparr>stop_flag := True\<rparr>)\<rparr>);
               w2 = w\<lparr>servers := (servers w)(sid \<mapsto> srv2)\<rparr>
           in case process srv2 of
                None \<Rightarrow> stop_finalize sid on_done w2
              | Some p \<Rightarrow>
                  w2\<lparr>stop_workers := (stop_workers w2)(sid \<mapsto>
                        \<lparr>worker_server_id = sid, worker_process = p\<rparr>)\<rparr>))"

definition reader_gone :: "string \<Rightarrow> MainWindow \<Rightarrow> MainWindow" where
  "reader_gone sid w =
     (case servers w sid of
        None \<Rightarrow> w
      | Some srv \<Rightarrow>
          (if reader srv \<noteq> None then w\<lparr>servers := (servers w)(sid \<mapsto> srv\<lparr>reader := None\<rparr>)\<rparr>
           else w))"

definition on_log_line :: "string \<Rightarrow> pystr \<Rightarrow> MainWindow \<Rightarrow> MainWindow" where
  "on_log_line sid line w =
     (case servers w sid of
        None \<Rightarrow> w
      | Some srv \<Rightarrow>
          (let srv1 = (if state srv = ''Starting'' then srv\<lparr>state := ''Running''\<rparr> else srv)
           in w\<lparr>servers := (servers w)(sid \<mapsto> append_log srv1 line)\<rparr>))"

text \<open>The exit code comes through a Qt signal as a machine integer, far below any limit.\<close>

definition exit_message :: "int \<Rightarrow> pystr" where
  "exit_message rc =
     10 # ascii ''[Manager] Process exited with code '' @ str_int rc @ [10]"

definition on_process_finished :: "string \<Rightarrow> int \<Rightarrow> MainWindow \<Rightarrow> MainWindow" where
  "on_process_finished sid rc w =
     (case servers w sid of
        None \<Rightarrow> w
      | Some srv \<Rightarrow>
          w\<lparr>servers := (servers w)(sid \<mapsto>
               append_log (srv\<lparr>state := ''Stopped''\<rparr>) (exit_message rc))\<rparr>)"

text \<open>
  What \<open>_start_server\<close> asks of the world in one call: the interpreter, whether a handle
  is running, the resolved executable and whether it exists, the private IP, whether the
  port is busy and the user's answer, the outcome of \<open>psutil.Popen\<close> (an error text or
  the handle of the new process) and the clock. \<open>psutil.Process(popen.pid)\<close> is taken to
  succeed. An exception of \<open>effective_port\<close> or of \<open>build_command\<close> leaves the call
  (\<open>PortError\<close>, \<open>CommandError\<close>).
\<close>

record start_env =
  interp :: pyenv
  is_running :: "nat \<Rightarrow> bool"
  resolved_exe :: "pystr option"
  path_exists :: "pystr \<Rightarrow> bool"
  get_private_ip :: string
  port_in_use :: "int \<Rightarrow> bool"
  answer_yes :: bool
  spawn :: "pystr list \<Rightarrow> string + nat"
  time_now :: real

datatype start_outcome =
    NoOp | ExecutableNotFound | PortError | PortDeclined | CommandError
  | SpawnFailed string | Started nat

fun join_sp :: "pystr list \<Rightarrow> pystr" where
  "join_sp [] = []"
| "join_sp [a] = a"
| "join_sp (a # b # rest) = a @ 32 # join_sp (b # rest)"

definition started_message :: "pystr list \<Rightarrow> pystr" where
  "started_message cmd = 10 # ascii ''[Manager] Started: '' @ join_sp cmd @ [10]"

definition start_server ::
  "start_env \<Rightarrow> string \<Rightarrow> MainWindow \<Rightarrow> MainWindow \<times> start_outcome" where
  "start_server env sid w =
     (case servers w sid of
        None \<Rightarrow> (w, NoOp)
      | Some srv \<Rightarrow>
          if (case process srv of None \<Rightarrow> False | Some p \<Rightarrow> is_running env p) then (w, NoOp)
          else if (case resolved_exe env of
                     None \<Rightarrow> True
                   | Some e \<Rightarrow> e = [] \<or> \<not> path_exists env e)
          then (w, ExecutableNotFound)
          else
            (let srv1 = srv\<lparr>private_ip := get_private_ip env\<rparr>;
                 w1 = w\<lparr>servers := (servers w)(sid \<mapsto> srv1)\<rparr>
             in case effective_port (interp env) (config srv1) of
                  None \<Rightarrow> (w1, PortError)
                | Some eport \<Rightarrow>
                    if port_in_use env eport \<and> \<not> answer_yes env
                    then (w1, PortDeclined)
                    else
                      (case build_command (interp env) (resolved_exe env) (config srv1) of
                         None \<Rightarrow> (w1, CommandError)
                       | Some cmd \<Rightarrow>
                           (case spawn env cmd of
                              Inl e \<Rightarrow> (w1, SpawnFailed e)
                            | Inr h \<Rightarrow>
                                (let srv2 = append_log
                                       (srv1\<lparr>process := Some h, ps := Some h,
                                             state := ''Starting''\<rparr>)
                                       (started_message cmd);
                                     srv3 = srv2\<lparr>last_started_ts := time_now env,
                                       reader := Some \<lparr>reader_server_id = sid, popen = h,
                                                       stop_flag = False\<rparr>\<rparr>
                                 in (w1\<lparr>servers := (servers w1)(sid \<mapsto> srv3),
                                         active_server_id := Some sid\<rparr>, Started h))))))"

text \<open>The invariant of the specification, for one runtime and for the whole table.\<close>

definition handle_iff_active :: "ServerRuntime \<Rightarrow> bool" where
  "handle_iff_active srv =
     ((state srv = ''Starting'' \<or> state srv = ''Running'' \<or> state srv = ''Stopping'')
        \<longleftrightarrow> process srv \<noteq> None)"

definition window_inv :: "MainWindow \<Rightarrow> bool" where
  "window_inv w = (\<forall>sid srv. servers w sid = Some srv \<longrightarrow> handle_iff_active srv)"

text \<open>
  An interpreter, a configuration, a world and a window with one server, to run the
  operations on. The interpreter knows the ASCII and the Arabic-Indic digits, leaves
  non-ASCII characters as they are when lower-casing, and has the default limit.
\<close>

definition py0 :: pyenv where
  "py0 = \<lparr>decimal_value =
            (\<lambda>c. if 48 \<le> c \<and> c \<le> 57 then Some (c - 48)
                 else if 0x660 \<le> c \<and> c \<le> 0x669 then Some (c - 0x660) else None),
          lower_nonascii = (\<lambda>left c right. [c]),
          max_str_digits = 4300\<rparr>"

definition cfg0 :: ServerConfig where
  "cfg0 = \<lparr>name = ''Server 1'', engine_path = ascii ''e'', project_path = ascii ''p'',
           port = 7777, custom_params = [], id_cfg = ''i''\<rparr>"

definition env0 :: start_env where
  "env0 = \<lparr>interp = py0, is_running = (\<lambda>h. True), resolved_exe = Some (ascii ''e''),
           path_exists = (\<lambda>p. True), get_private_ip = ''10.0.0.2'',
           port_in_use = (\<lambda>p. False), answer_yes = False, spawn = (\<lambda>cmd. Inr 42),
           time_now = 1\<rparr>"

definition window0 :: MainWindow where
  "window0 = \<lparr>servers = [''i'' \<mapsto> new_runtime cfg0], stop_workers = Map.empty,
              active_server_id = None\<rparr>"

text \<open>The direction that every operation keeps: an active state has a handle.\<close>

definition active_has_handle :: "MainWindow \<Rightarrow> bool" where
  "active_has_handle w =
     (\<forall>sid srv. servers w sid = Some srv \<longrightarrow>
        state srv = ''Starting'' \<or> state srv = ''Running'' \<or> state srv = ''Stopping'' \<longrightarrow>
        process srv \<noteq> None)"

text \<open>A window whose server is running, with sampled metrics.\<close>

definition running_window :: MainWindow where
  "running_window =
     \<lparr>servers = [''i'' \<mapsto> (new_runtime cfg0)
          \<lparr>process := Some 42, ps := Some 42, state := ''Running'', cpu_percent := 25 / 2,
           mem_mb := 300\<rparr>],
      stop_workers = Map.empty, active_server_id = Some ''i''\<rparr>"

text \<open>Configurations with custom parameters: the port set twice, and quoted.\<close>

definition later_cfg :: ServerConfig where
  "later_cfg = cfg0\<lparr>custom_params := ascii ''-NetPort=1 -Port=9000''\<rparr>"




text \<open>Custom parameters that set a port of 4301 digits, and one in Arabic-Indic digits.\<close>

definition long_cfg :: ServerConfig where
  "long_cfg = cfg0\<lparr>custom_params := ascii ''-Port='' @ replicate 4301 49\<rparr>"

definition arabic_cfg :: ServerConfig where
  "arabic_cfg = cfg0\<lparr>custom_params := ascii ''-port='' @ [0x661, 0x662, 51]\<rparr>"

section \<open>Properties of the log buffer\<close>

text \<open>
  C3. After an append the buffer holds at most 8000 lines, whatever it held before; an
  append to a buffer of exactly 8000 lines drops the oldest line only and keeps the
  other 7999 in order, followed by the new line.
\<close>

theorem append_log_bounded_fifo:
  "length (log_lines (append_log srv t)) \<le> 8000 \<and>
   (length (log_lines srv) = 8000 \<longrightarrow>
      log_lines (append_log srv t) = tl (log_lines srv) @ [t])"
  by (cases "log_lines srv")
     (simp_all add: append_log_def append_log_lines_def max_lines_default_def Let_def)

theorem append_log_bounded_fifo_witness:
  "length (log_lines ((new_runtime cfg0)\<lparr>log_lines := replicate 8000 (ascii ''x'')\<rparr>)) = 8000 \<and>
   length (log_lines (append_log
      ((new_runtime cfg0)\<lparr>log_lines := replicate 8000 (ascii ''x'')\<rparr>) (ascii ''y''))) \<le> 8000 \<and>
   log_lines (append_log
      ((new_runtime cfg0)\<lparr>log_lines := replicate 8000 (ascii ''x'')\<rparr>) (ascii ''y''))
     = tl (replicate 8000 (ascii ''x'')) @ [ascii ''y'']"
  using append_log_bounded_fifo
    [of "(new_runtime cfg0)\<lparr>log_lines := replicate 8000 (ascii ''x'')\<rparr>" "ascii ''y''"]
  by simp

section \<open>Properties of lower-casing\<close>


lemma lower_from_ascii:
  "\<forall>c \<in> set s. c < 128 \<Longrightarrow> lower_from py left s = map ascii_lower s"
  by (induction s arbitrary: left) (simp_all add: lower_char_def)

lemma lower_ascii: "\<forall>c \<in> set s. c < 128 \<Longrightarrow> lower py s = map ascii_lower s"
  by (simp add: lower_def lower_from_ascii)

section \<open>Properties of the log classifier\<close>

lemma classify_range: "classify_log_line py line \<in> {''info'', ''warning'', ''error''}"
  by (simp add: classify_log_line_def Let_def)

lemma classify_warning_example:
  "classify_log_line py (ascii ''LogTemp: Warning: something'') = ''warning''"
  by code_simp

lemma classify_error_example:
  "classify_log_line py (ascii ''LogTemp: Error: failed'') = ''error''"
  by code_simp

lemma classify_cases:
  "(classify_log_line py line = ''error'' \<longleftrightarrow>
      sublist (ascii '': error:'') (lower py line) \<or> sublist (ascii '' error: '') (lower py line)
      \<or> prefix (ascii ''error:'') (lower py line)) \<and>
   (classify_log_line py line = ''warning'' \<longleftrightarrow>
      \<not> (sublist (ascii '': error:'') (lower py line)
           \<or> sublist (ascii '' error: '') (lower py line)
           \<or> prefix (ascii ''error:'') (lower py line)) \<and>
      (sublist (ascii '': warning:'') (lower py line)
         \<or> sublist (ascii '' warning: '') (lower py line)
         \<or> prefix (ascii ''warning:'') (lower py line))) \<and>
   (classify_log_line py line = ''info'' \<longleftrightarrow>
      \<not> (sublist (ascii '': error:'') (lower py line)
           \<or> sublist (ascii '' error: '') (lower py line)
           \<or> prefix (ascii ''error:'') (lower py line)) \<and>
      \<not> (sublist (ascii '': warning:'') (lower py line)
           \<or> sublist (ascii '' warning: '') (lower py line)
           \<or> prefix (ascii ''warning:'') (lower py line)))"
  by (simp add: classify_log_line_def Let_def)

text \<open>
  C10. The two example lines classify as warning and as error. Every line gets exactly
  one of the three severities: error when its lower-cased form carries an error marker
  (\<open>": error:"\<close> or \<open>" error: "\<close> anywhere, \<open>"error:"\<close> at the start), warning when it
  carries no error marker and a warning marker, and info in every other case, that is,
  when it carries no marker at all.
\<close>

theorem classify_log_line_severity:
  "classify_log_line py (ascii ''LogTemp: Warning: something'') = ''warning'' \<and>
   classify_log_line py (ascii ''LogTemp: Error: failed'') = ''error'' \<and>
   classify_log_line py line \<in> {''info'', ''warning'', ''error''} \<and>
   (classify_log_line py line = ''error'' \<longleftrightarrow>
      sublist (ascii '': error:'') (lower py line) \<or> sublist (ascii '' error: '') (lower py line)
      \<or> prefix (ascii ''error:'') (lower py line)) \<and>
   (classify_log_line py line = ''warning'' \<longleftrightarrow>
      \<not> (sublist (ascii '': error:'') (lower py line)
           \<or> sublist (ascii '' error: '') (lower py line)
           \<or> prefix (ascii ''error:'') (lower py line)) \<and>
      (sublist (ascii '': warning:'') (lower py line)
         \<or> sublist (ascii '' warning: '') (lower py line)
         \<or> prefix (ascii ''warning:'') (lower py line))) \<and>
   (classify_log_line py line = ''info'' \<longleftrightarrow>
      \<not> (sublist (ascii '': error:'') (lower py line)
           \<or> sublist (ascii '' error: '') (lower py line)
           \<or> prefix (ascii ''error:'') (lower py line)) \<and>
      \<not> (sublist (ascii '': warning:'') (lower py line)
           \<or> sublist (ascii '' warning: '') (lower py line)
           \<or> prefix (ascii ''warning:'') (lower py line)))"
  using classify_warning_example [of py] classify_error_example [of py]
    classify_range [of py line] classify_cases [of py line]
  by blast

theorem classify_log_line_severity_witness:
  "classify_log_line py0 (ascii ''Server started'') = ''info'' \<and>
   classify_log_line py0 (ascii ''Error: disk full'') = ''error''"
proof -
  have "\<not> (sublist (ascii '': error:'') (lower py0 (ascii ''Server started''))
            \<or> sublist (ascii '' error: '') (lower py0 (ascii ''Server started''))
            \<or> prefix (ascii ''error:'') (lower py0 (ascii ''Server started'')))"
    by code_simp
  moreover have "\<not> (sublist (ascii '': warning:'') (lower py0 (ascii ''Server started''))
            \<or> sublist (ascii '' warning: '') (lower py0 (ascii ''Server started''))
            \<or> prefix (ascii ''warning:'') (lower py0 (ascii ''Server started'')))"
    by code_simp
  moreover have "prefix (ascii ''error:'') (lower py0 (ascii ''Error: disk full''))"
    by code_simp
  ultimately show ?thesis
    using classify_log_line_severity [of py0 "ascii ''Server started''"]
      classify_log_line_severity [of py0 "ascii ''Error: disk full''"]
    by blast
qed

section \<open>Properties of the reader thread\<close>

lemma read_loop_takeWhile:
  "fst (read_loop sid ls)
     = map (LineReceived sid) (map fst (takeWhile (\<lambda>x. \<not> snd x) ls))"
  by (induction ls) (auto split: prod.splits)

lemma read_loop_no_finished: "filter is_finished (fst (read_loop sid ls)) = []"
  by (induction ls) (auto split: prod.splits)

text \<open>
  When \<open>wait()\<close> returns an exit code or raises, the events of a run are the lines read
  before the stop event was seen, in their order of arrival, followed by one
  \<open>process_finished\<close> event, the last event and the only one of its kind; it carries the
  exit code, or \<open>-1\<close> when \<open>wait()\<close> raises.
\<close>

lemma reader_run_exit_event:
  assumes "wait_result env = WaitReturns (Some rc) \<or> (wait_result env = WaitRaises \<and> rc = - 1)"
  shows "fst (reader_run env sid)
     = map (LineReceived sid)
         (map fst (takeWhile (\<lambda>x. \<not> snd x)
            (case stdout_lines env of None \<Rightarrow> [] | Some ls \<Rightarrow> ls)))
       @ [ProcessFinished sid rc]"
    and "length (filter is_finished (fst (reader_run env sid))) = 1"
    and "last (fst (reader_run env sid)) = ProcessFinished sid rc"
proof -
  let ?ls = "case stdout_lines env of None \<Rightarrow> [] | Some ls \<Rightarrow> ls"
  have evs: "fst (reader_run env sid) = fst (read_loop sid ?ls) @ [ProcessFinished sid rc]"
    using assms
    by (auto simp: reader_run_def Let_def split: option.splits prod.splits)
  then show "fst (reader_run env sid)
     = map (LineReceived sid) (map fst (takeWhile (\<lambda>x. \<not> snd x) ?ls))
       @ [ProcessFinished sid rc]"
    by (simp only: read_loop_takeWhile)
  show "length (filter is_finished (fst (reader_run env sid))) = 1"
    unfolding evs by (simp add: read_loop_no_finished)
  show "last (fst (reader_run env sid)) = ProcessFinished sid rc"
    unfolding evs by simp
qed

text \<open>When \<open>wait()\<close> returns \<open>None\<close>, a run emits its lines and no \<open>process_finished\<close>.\<close>

lemma reader_run_wait_none:
  assumes "wait_result env = WaitReturns None"
  shows "fst (reader_run env sid)
     = map (LineReceived sid)
         (map fst (takeWhile (\<lambda>x. \<not> snd x)
            (case stdout_lines env of None \<Rightarrow> [] | Some ls \<Rightarrow> ls)))"
    and "filter is_finished (fst (reader_run env sid)) = []"
    and "snd (reader_run env sid)"
proof -
  let ?ls = "case stdout_lines env of None \<Rightarrow> [] | Some ls \<Rightarrow> ls"
  have evs: "fst (reader_run env sid) = fst (read_loop sid ?ls)"
    using assms
    by (auto simp: reader_run_def Let_def split: option.splits prod.splits)
  then show "fst (reader_run env sid)
     = map (LineReceived sid) (map fst (takeWhile (\<lambda>x. \<not> snd x) ?ls))"
    by (simp only: read_loop_takeWhile)
  show "filter is_finished (fst (reader_run env sid)) = []"
    unfolding evs by (rule read_loop_no_finished)
  show "snd (reader_run env sid)"
    using assms
    by (auto simp: reader_run_def Let_def split: option.splits prod.splits)
qed


section \<open>Properties of the stop worker\<close>









section \<open>Decimal numerals\<close>

lemma ascii_digits_value: "ascii_digits py \<Longrightarrow> d < 10 \<Longrightarrow> decimal_value py (48 + d) = Some d"
  by (simp add: ascii_digits_def)


lemma decimal_digits:
  assumes "ascii_digits py"
  shows "\<forall>c \<in> set (decimal n). is_digit py c"
proof (induction n rule: decimal.induct)
  case (1 n)
  show ?case
  proof (cases "n < 10")
    case True
    then show ?thesis
      using ascii_digits_value [OF assms, of n]
      by (subst decimal.simps) (simp add: is_digit_def)
  next
    case False
    have "is_digit py (48 + n mod 10)"
      using ascii_digits_value [OF assms, of "n mod 10"] by (simp add: is_digit_def)
    with False 1 show ?thesis by (subst decimal.simps) simp
  qed
qed

lemma decimal_nonempty: "decimal n \<noteq> []"
  by (subst decimal.simps) simp

lemma digits_value_snoc:
  "digits_value py (s @ [c])
     = 10 * digits_value py s + (case decimal_value py c of Some v \<Rightarrow> int v | None \<Rightarrow> 0)"
  by (simp add: digits_value_def)

lemma digits_value_decimal:
  assumes "ascii_digits py"
  shows "digits_value py (decimal n) = int n"
proof (induction n rule: decimal.induct)
  case (1 n)
  show ?case
  proof (cases "n < 10")
    case True
    then show ?thesis
      using ascii_digits_value [OF assms, of n]
      by (subst decimal.simps) (simp add: digits_value_def)
  next
    case False
    have "decimal_value py (48 + n mod 10) = Some (n mod 10)"
      using ascii_digits_value [OF assms, of "n mod 10"] by simp
    moreover have "10 * int (n div 10) + int (n mod 10) = int n"
      by presburger
    ultimately show ?thesis using False 1
      by (subst decimal.simps) (simp add: digits_value_snoc)
  qed
qed

lemma decimal_9000: "decimal 9000 = ascii ''9000''"
  by (simp add: decimal.simps [of 9000] decimal.simps [of 900] decimal.simps [of 90]
        decimal.simps [of 9] ascii_def)

lemma ascii_digits_py0: "ascii_digits py0"
  by (simp add: ascii_digits_def py0_def)

section \<open>Properties of the port search\<close>

lemma length_ascii [simp]: "length (ascii s) = length s"
  by (simp add: ascii_def)

lemma strip_ci_Some_iff:
  "strip_ci pat s = Some r \<longleftrightarrow>
     length pat \<le> length s \<and> map ascii_lower (take (length pat) s) = pat
     \<and> r = drop (length pat) s"
  by (induction pat s rule: strip_ci.induct) auto

lemma takeWhile_Nil_iff: "takeWhile P r = [] \<longleftrightarrow> (case r of [] \<Rightarrow> True | c # _ \<Rightarrow> \<not> P c)"
  by (cases r) simp_all

lemma try_alt_None_iff:
  "try_alt py (ascii key) s = None \<longleftrightarrow>
     \<not> (reads_key key s
         \<and> (case drop (length key) s of [] \<Rightarrow> False | c # _ \<Rightarrow> is_digit py c))"
proof (cases "strip_ci (ascii key) s")
  case None
  then have "\<not> reads_key key s"
    using strip_ci_Some_iff [of "ascii key" s "drop (length key) s"]
    by (simp add: reads_key_def)
  with None show ?thesis by (simp add: try_alt_def)
next
  case (Some r)
  then have "reads_key key s" and r: "r = drop (length key) s"
    using strip_ci_Some_iff [of "ascii key" s r] by (simp_all add: reads_key_def)
  then show ?thesis
    using Some by (cases "drop (length key) s") (simp_all add: try_alt_def Let_def)
qed

lemma match_at_None_iff: "match_at py s = None \<longleftrightarrow> \<not> port_token_at py s 0"
  using try_alt_None_iff [of py "''-port=''" s] try_alt_None_iff [of py "''-netport=''" s]
  by (auto simp: match_at_def port_token_at_def split: option.splits)

lemma port_token_at_Cons: "port_token_at py (c # s) (Suc i) = port_token_at py s i"
  by (simp add: port_token_at_def)

lemma re_search_None_iff:
  "re_search py s = None \<longleftrightarrow> (\<forall>i < length s. \<not> port_token_at py s i)"
proof (induction s)
  case Nil
  show ?case by simp
next
  case (Cons c cs)
  have "(\<forall>i < length (c # cs). \<not> port_token_at py (c # cs) i)
        \<longleftrightarrow> \<not> port_token_at py (c # cs) 0 \<and> (\<forall>i < length cs. \<not> port_token_at py cs i)"
    by (auto simp: port_token_at_Cons less_Suc_eq_0_disj)
  then show ?case
    using Cons match_at_None_iff [of py "c # cs"] by (auto split: option.splits)
qed

lemma re_search_skip:
  "\<forall>i < length pre. \<not> port_token_at py (pre @ t) i \<Longrightarrow> re_search py (pre @ t) = re_search py t"
proof (induction pre)
  case Nil
  show ?case by simp
next
  case (Cons x pre)
  from Cons.prems have "\<not> port_token_at py (x # pre @ t) 0"
    by auto
  then have m: "match_at py (x # pre @ t) = None"
    by (simp add: match_at_None_iff)
  have "\<forall>i < length pre. \<not> port_token_at py (pre @ t) i"
  proof (intro allI impI)
    fix i assume "i < length pre"
    then have "\<not> port_token_at py ((x # pre) @ t) (Suc i)"
      using Cons.prems by auto
    then show "\<not> port_token_at py (pre @ t) i"
      by (simp add: port_token_at_Cons)
  qed
  then have "re_search py (pre @ t) = re_search py t"
    by (rule Cons.IH)
  with m show ?case by simp
qed

lemma strip_ci_key: "map ascii_lower key = pat \<Longrightarrow> strip_ci pat (key @ r) = Some r"
  by (simp add: strip_ci_Some_iff) auto

lemma takeWhile_digits:
  assumes "\<forall>c \<in> set ds. is_digit py c"
    and "case post of [] \<Rightarrow> True | c # _ \<Rightarrow> \<not> is_digit py c"
  shows "takeWhile (is_digit py) (ds @ post) = ds"
proof -
  have "takeWhile (is_digit py) post = []"
    using assms(2) by (cases post) simp_all
  then show ?thesis
    using assms(1) by (simp add: takeWhile_append2)
qed

lemma try_alt_key:
  assumes "ds \<noteq> []" and "\<forall>c \<in> set ds. is_digit py c"
    and "case post of [] \<Rightarrow> True | c # _ \<Rightarrow> \<not> is_digit py c"
    and "map ascii_lower key = pat"
  shows "try_alt py pat (key @ ds @ post) = Some ds"
  unfolding try_alt_def strip_ci_key [OF assms(4)]
  using takeWhile_digits [OF assms(2,3)] assms(1)
  by (simp add: Let_def)

lemma strip_ci_port_netport:
  assumes "map ascii_lower key = ascii ''-netport=''"
  shows "strip_ci (ascii ''-port='') (key @ r) = None"
proof -
  have "ascii ''-netport='' = 45 # 110 # ascii ''etport=''"
    by (simp add: ascii_def)
  with assms obtain k1 k2 ks
    where "key = k1 # k2 # ks" "ascii_lower k1 = 45" "ascii_lower k2 = 110"
    by (auto simp: map_eq_Cons_conv)
  moreover have "ascii ''-port='' = 45 # 112 # ascii ''ort=''"
    by (simp add: ascii_def)
  ultimately show ?thesis by simp
qed

lemma match_at_key:
  assumes "ds \<noteq> []" and "\<forall>c \<in> set ds. is_digit py c"
    and "case post of [] \<Rightarrow> True | c # _ \<Rightarrow> \<not> is_digit py c"
    and "map ascii_lower key = ascii ''-port='' \<or> map ascii_lower key = ascii ''-netport=''"
  shows "match_at py (key @ ds @ post) = Some ds"
  using assms(4)
proof
  assume "map ascii_lower key = ascii ''-port=''"
  then have "try_alt py (ascii ''-port='') (key @ ds @ post) = Some ds"
    by (rule try_alt_key [OF assms(1,2,3)])
  then show ?thesis by (simp add: match_at_def)
next
  assume k: "map ascii_lower key = ascii ''-netport=''"
  then have "try_alt py (ascii ''-netport='') (key @ ds @ post) = Some ds"
    by (rule try_alt_key [OF assms(1,2,3)])
  moreover have "try_alt py (ascii ''-port='') (key @ ds @ post) = None"
    by (simp add: try_alt_def strip_ci_port_netport [OF k])
  ultimately show ?thesis by (simp add: match_at_def)
qed

lemma re_search_key_token:
  assumes "ds \<noteq> []" and "\<forall>c \<in> set ds. is_digit py c"
    and "\<forall>i < length pre. \<not> port_token_at py (pre @ key @ ds @ post) i"
    and "case post of [] \<Rightarrow> True | c # _ \<Rightarrow> \<not> is_digit py c"
    and "map ascii_lower key = ascii ''-port='' \<or> map ascii_lower key = ascii ''-netport=''"
  shows "re_search py (pre @ key @ ds @ post) = Some ds"
proof -
  have "key \<noteq> []"
    using assms(5) by (auto simp: ascii_def)
  then obtain c cs where c: "key @ ds @ post = c # cs"
    by (cases key) auto
  have "match_at py (c # cs) = Some ds"
    using match_at_key [OF assms(1,2,4,5)] unfolding c .
  then have "re_search py (c # cs) = Some ds"
    by simp
  then have "re_search py (key @ ds @ post) = Some ds"
    unfolding c .
  moreover have "re_search py (pre @ key @ ds @ post) = re_search py (key @ ds @ post)"
    using assms(3) by (rule re_search_skip)
  ultimately show ?thesis by simp
qed

lemma effective_port_digits:
  assumes "custom_params cfg = pre @ key @ ds @ post"
    and "map ascii_lower key = ascii ''-port='' \<or> map ascii_lower key = ascii ''-netport=''"
    and "ds \<noteq> []" and "\<forall>c \<in> set ds. is_digit py c"
    and "\<forall>i < length pre. \<not> port_token_at py (custom_params cfg) i"
    and "case post of [] \<Rightarrow> True | c # _ \<Rightarrow> \<not> is_digit py c"
  shows "effective_port py cfg
      = (if exceeds_limit py (length ds) then None else Some (digits_value py ds))"
proof -
  from assms(5) have "\<forall>i < length pre. \<not> port_token_at py (pre @ key @ ds @ post) i"
    unfolding assms(1) .
  with assms(3,4) have "re_search py (pre @ key @ ds @ post) = Some ds"
    using assms(6,2) by (rule re_search_key_token)
  then show ?thesis
    by (simp add: effective_port_def py_int_def assms(1))
qed

text \<open>
  C8, as the code has it. With no custom arguments, and with custom arguments in which
  no position reads \<open>-Port=\<close> or \<open>-NetPort=\<close> followed by a digit, the effective port is
  the configured port. When the custom arguments hold \<open>-Port=N\<close> or \<open>-NetPort=N\<close> (the letters in
  either case, \<open>N\<close> a decimal numeral not followed by a further digit) and no position to
  the left of it reads \<open>-Port=\<close> or \<open>-NetPort=\<close> followed by a digit, the effective port
  is \<open>N\<close>, whatever the configured port, unless \<open>N\<close> has more digits than the conversion
  limit of the interpreter allows: then \<open>effective_port\<close> raises. The search takes the
  leftmost match, so a \<open>-Port=N\<close> further right does not count. The same holds for any
  run of decimal digits of the interpreter in the place of the numeral, with the number
  that the run denotes.
\<close>

theorem effective_port_first_token:
  "(custom_params cfg = [] \<longrightarrow> effective_port py cfg = Some (port cfg)) \<and>
   ((\<forall>i < length (custom_params cfg). \<not> port_token_at py (custom_params cfg) i) \<longrightarrow>
    effective_port py cfg = Some (port cfg)) \<and>
   (ascii_digits py \<longrightarrow>
    custom_params cfg = pre @ key @ decimal N @ post \<longrightarrow>
    map ascii_lower key = ascii ''-port='' \<or> map ascii_lower key = ascii ''-netport='' \<longrightarrow>
    (\<forall>i < length pre. \<not> port_token_at py (custom_params cfg) i) \<longrightarrow>
    (case post of [] \<Rightarrow> True | c # _ \<Rightarrow> \<not> is_digit py c) \<longrightarrow>
    effective_port py cfg
      = (if exceeds_limit py (length (decimal N)) then None else Some (int N))) \<and>
   (custom_params cfg = pre @ key @ ds @ post \<longrightarrow>
    map ascii_lower key = ascii ''-port='' \<or> map ascii_lower key = ascii ''-netport='' \<longrightarrow>
    ds \<noteq> [] \<longrightarrow> (\<forall>c \<in> set ds. is_digit py c) \<longrightarrow>
    (\<forall>i < length pre. \<not> port_token_at py (custom_params cfg) i) \<longrightarrow>
    (case post of [] \<Rightarrow> True | c # _ \<Rightarrow> \<not> is_digit py c) \<longrightarrow>
    effective_port py cfg
      = (if exceeds_limit py (length ds) then None else Some (digits_value py ds)))"
proof (intro conjI impI)
  assume "custom_params cfg = []"
  then show "effective_port py cfg = Some (port cfg)"
    by (simp add: effective_port_def)
next
  assume "\<forall>i < length (custom_params cfg). \<not> port_token_at py (custom_params cfg) i"
  then have "re_search py (custom_params cfg) = None"
    by (simp add: re_search_None_iff)
  then show "effective_port py cfg = Some (port cfg)"
    by (simp add: effective_port_def)
next
  assume ad: "ascii_digits py"
    and eq: "custom_params cfg = pre @ key @ decimal N @ post"
    and key: "map ascii_lower key = ascii ''-port='' \<or> map ascii_lower key = ascii ''-netport=''"
    and pre: "\<forall>i < length pre. \<not> port_token_at py (custom_params cfg) i"
    and post: "case post of [] \<Rightarrow> True | c # _ \<Rightarrow> \<not> is_digit py c"
  have "effective_port py cfg
      = (if exceeds_limit py (length (decimal N)) then None
         else Some (digits_value py (decimal N)))"
    using eq key decimal_nonempty decimal_digits [OF ad] pre post
    by (rule effective_port_digits)
  then show "effective_port py cfg
      = (if exceeds_limit py (length (decimal N)) then None else Some (int N))"
    by (simp add: digits_value_decimal [OF ad])
next
  assume "custom_params cfg = pre @ key @ ds @ post"
    and "map ascii_lower key = ascii ''-port='' \<or> map ascii_lower key = ascii ''-netport=''"
    and "ds \<noteq> []" and "\<forall>c \<in> set ds. is_digit py c"
    and "\<forall>i < length pre. \<not> port_token_at py (custom_params cfg) i"
    and "case post of [] \<Rightarrow> True | c # _ \<Rightarrow> \<not> is_digit py c"
  then show "effective_port py cfg
      = (if exceeds_limit py (length ds) then None else Some (digits_value py ds))"
    by (rule effective_port_digits)
qed

theorem effective_port_first_token_witness:
  "effective_port py0 cfg0 = Some 7777 \<and>
   effective_port py0 (cfg0\<lparr>custom_params := ascii ''-log -Port=9000 -nosteam''\<rparr>) = Some 9000 \<and>
   effective_port py0 arabic_cfg = Some 123 \<and>
   effective_port py0 (cfg0\<lparr>custom_params := ascii ''-log Transport=5 -Port=x''\<rparr>) = Some 7777"
proof -
  let ?other = "cfg0\<lparr>custom_params := ascii ''-log Transport=5 -Port=x''\<rparr>"
  have "re_search py0 (custom_params ?other) = None"
    by code_simp
  then have n: "\<forall>i < length (custom_params ?other).
                  \<not> port_token_at py0 (custom_params ?other) i"
    by (simp only: re_search_None_iff)
  have o: "effective_port py0 ?other = Some 7777"
    using effective_port_first_token [where cfg = ?other and py = py0] n
    by (simp add: cfg0_def)
  let ?cfg = "cfg0\<lparr>custom_params := ascii ''-log -Port=9000 -nosteam''\<rparr>"
  have e: "custom_params ?cfg
      = ascii ''-log '' @ ascii ''-Port='' @ decimal 9000 @ ascii '' -nosteam''"
    by (simp add: decimal_9000 ascii_def)
  have k: "map ascii_lower (ascii ''-Port='') = ascii ''-port=''
           \<or> map ascii_lower (ascii ''-Port='') = ascii ''-netport=''"
    by code_simp
  have r: "\<forall>i < length (ascii ''-log ''). \<not> port_token_at py0 (custom_params ?cfg) i"
    by code_simp
  have p: "case ascii '' -nosteam'' of [] \<Rightarrow> True | c # _ \<Rightarrow> \<not> is_digit py0 c"
    by code_simp
  have l: "\<not> exceeds_limit py0 (length (decimal 9000))"
    by (simp add: decimal_9000 exceeds_limit_def)
  have "effective_port py0 ?cfg = Some (int 9000)"
    using effective_port_first_token
      [where cfg = ?cfg and py = py0 and pre = "ascii ''-log ''" and key = "ascii ''-Port=''"
         and N = 9000 and post = "ascii '' -nosteam''"]
      ascii_digits_py0 e k r p l
    by simp
  moreover have "effective_port py0 cfg0 = Some 7777"
    using effective_port_first_token [where cfg = cfg0 and py = py0]
    by (simp add: cfg0_def)
  moreover have "effective_port py0 arabic_cfg = Some 123"
  proof -
    have e': "custom_params arabic_cfg = [] @ ascii ''-port='' @ [0x661, 0x662, 51] @ []"
      by (simp add: arabic_cfg_def)
    have k': "map ascii_lower (ascii ''-port='') = ascii ''-port=''
           \<or> map ascii_lower (ascii ''-port='') = ascii ''-netport=''"
      by code_simp
    have d: "\<forall>c \<in> set [0x661, 0x662, 51::nat]. is_digit py0 c"
      by (simp add: is_digit_def py0_def)
    have v: "digits_value py0 [0x661, 0x662, 51] = 123"
      by (simp add: digits_value_def py0_def)
    have l': "\<not> exceeds_limit py0 (length [0x661, 0x662, 51::nat])"
      by (simp add: exceeds_limit_def)
    show ?thesis
      using effective_port_first_token
        [where cfg = arabic_cfg and py = py0 and pre = "[]" and key = "ascii ''-port=''"
           and ds = "[0x661, 0x662, 51]" and post = "[]"]
        e' k' d v l'
      by simp
  qed
  ultimately show ?thesis using o by simp
qed

text \<open>
  The claim as written fails. The custom arguments contain \<open>-Port=9000\<close>, and the
  effective port is 1, that of the \<open>-NetPort=1\<close> to the left of it. And for custom
  arguments \<open>-Port=N\<close> with a numeral \<open>N\<close> of 4301 digits, \<open>effective_port\<close> raises under
  the default limit.
\<close>

theorem effective_port_later_token_counterexample:
  "custom_params later_cfg = ascii ''-NetPort=1 '' @ ascii ''-Port=9000'' \<and>
   effective_port py0 later_cfg = Some 1 \<and>
   custom_params long_cfg = ascii ''-Port='' @ replicate 4301 49 \<and>
   effective_port py0 long_cfg = None"
proof -
  have a: "custom_params later_cfg = ascii ''-NetPort=1 '' @ ascii ''-Port=9000''"
    by code_simp
  have b: "effective_port py0 later_cfg = Some 1"
    by code_simp
  have c: "custom_params long_cfg = ascii ''-Port='' @ replicate 4301 49"
    by (simp add: long_cfg_def)
  have k: "map ascii_lower (ascii ''-Port='') = ascii ''-port=''
           \<or> map ascii_lower (ascii ''-Port='') = ascii ''-netport=''"
    by code_simp
  have "effective_port py0 long_cfg
      = (if exceeds_limit py0 (length (replicate 4301 (49::nat))) then None
         else Some (digits_value py0 (replicate 4301 49)))"
    using effective_port_digits [of long_cfg "[]" "ascii ''-Port=''" "replicate 4301 49" "[]" py0]
      c k
    by (simp add: is_digit_def py0_def)
  then have d: "effective_port py0 long_cfg = None"
    by (simp add: exceeds_limit_def py0_def)
  from a b c d show ?thesis by blast
qed

section \<open>Properties of the window operations\<close>

lemma start_server_live_noop:
  assumes "servers w sid = Some srv" "process srv = Some h" "is_running env h"
  shows "start_server env sid w = (w, NoOp)"
  using assms by (simp add: start_server_def)

lemma start_server_Started:
  assumes "start_server env sid w = (w1, Started h)"
  shows "\<exists>srv1. servers w1 sid = Some srv1 \<and> process srv1 = Some h
           \<and> state srv1 = ''Starting''"
  using assms
  by (auto simp: start_server_def Let_def append_log_def
           split: option.splits if_splits sum.splits)

text \<open>
  C7. After a start that spawned a process, a second start that finds this process
  running returns at once: the window, and so every field of the entity, is unchanged.
\<close>

theorem start_server_twice_noop:
  assumes "start_server env sid w = (w1, Started h)" and "is_running env' h"
  shows "start_server env' sid w1 = (w1, NoOp)"
proof -
  from start_server_Started [OF assms(1)] obtain srv1
    where "servers w1 sid = Some srv1" "process srv1 = Some h" by blast
  then show ?thesis using assms(2) by (rule start_server_live_noop)
qed


lemma build_command_cfg0:
  "build_command py0 (Some (ascii ''e'')) cfg0
     = Some [ascii ''e'', ascii ''p'', ascii ''-server'', ascii ''-unattended'',
             ascii ''-stdout'', ascii ''-FullStdOutLogOutput'',
             ascii ''-Port='' @ str_int 7777]"
proof -
  have "\<not> exceeds_limit py0 (length (decimal (nat \<bar>7777\<bar>)))"
    by (simp add: exceeds_limit_def decimal.simps [of 7777] decimal.simps [of 777]
          decimal.simps [of 77] decimal.simps [of 7])
  moreover have "project_path cfg0 \<noteq> []"
    by (simp add: cfg0_def ascii_def)
  ultimately show ?thesis
    by (simp add: build_command_def py_str_def cfg0_def lower_def strip_empty_def Let_def
          ascii_def)
qed

lemma start_window0_outcome: "snd (start_server env0 ''i'' window0) = Started 42"
proof -
  have "effective_port py0 cfg0 = Some 7777"
    by (simp add: effective_port_def cfg0_def)
  moreover have "config (new_runtime cfg0) = cfg0"
    by (simp add: new_runtime_def)
  moreover have "ascii ''e'' \<noteq> []"
    by (simp add: ascii_def)
  ultimately show ?thesis
    by (simp add: start_server_def env0_def window0_def build_command_cfg0 Let_def)
       (simp add: new_runtime_def)
qed

theorem start_server_twice_noop_witness:
  "snd (start_server env0 ''i'' window0) = Started 42 \<and>
   start_server env0 ''i'' (fst (start_server env0 ''i'' window0))
     = (fst (start_server env0 ''i'' window0), NoOp)"
proof -
  have "start_server env0 ''i'' window0 = (fst (start_server env0 ''i'' window0), Started 42)"
    using start_window0_outcome by (metis prod.collapse)
  moreover have "is_running env0 42"
    by (simp add: env0_def)
  ultimately show ?thesis
    using start_server_twice_noop [of env0 "''i''" window0 _ 42 env0] start_window0_outcome
    by blast
qed

section \<open>The handle invariant\<close>

lemma handle_iff_active_append_log [simp]:
  "handle_iff_active (append_log srv t) = handle_iff_active srv"
  by (simp add: handle_iff_active_def append_log_def)

lemma window_inv_servers:
  "window_inv w \<Longrightarrow> handle_iff_active srv \<Longrightarrow> servers w' = (servers w)(sid \<mapsto> srv) \<Longrightarrow>
   window_inv w'"
  by (auto simp: window_inv_def)

lemma window_inv_same_servers:
  "window_inv w \<Longrightarrow> servers w' = servers w \<Longrightarrow> window_inv w'"
  by (simp add: window_inv_def)

lemma window_inv_really_delete: "window_inv w \<Longrightarrow> window_inv (really_delete sid w)"
  by (simp add: window_inv_def really_delete_def)

lemma window_inv_run_on_done: "window_inv w \<Longrightarrow> window_inv (run_on_done cb w)"
  by (cases "(cb, w)" rule: run_on_done.cases) (simp_all add: window_inv_really_delete)

lemma window_inv_stop_finalize:
  assumes "window_inv w"
  shows "window_inv (stop_finalize sid cb w)"
proof (cases "servers w sid")
  case None
  have "window_inv (w\<lparr>stop_workers := (stop_workers w)(sid := None)\<rparr>)"
    using assms by (rule window_inv_same_servers) simp
  then show ?thesis
    using None by (simp add: stop_finalize_def window_inv_run_on_done)
next
  case (Some srv)
  let ?srv = "srv\<lparr>state := ''Stopped'', process := None, ps := None,
                  cpu_percent := 0, mem_mb := 0\<rparr>"
  have "handle_iff_active ?srv"
    by (simp add: handle_iff_active_def)
  with assms
  have "window_inv (w\<lparr>stop_workers := (stop_workers w)(sid := None),
                      servers := (servers w)(sid \<mapsto> ?srv)\<rparr>)"
    by (rule window_inv_servers) simp
  then show ?thesis
    using Some by (simp add: stop_finalize_def window_inv_run_on_done)
qed

lemma window_inv_stop_server:
  assumes "window_inv w"
  shows "window_inv (stop_server sid cb w)"
proof (cases "servers w sid")
  case None
  then show ?thesis using assms by (simp add: stop_server_def)
next
  case (Some srv)
  let ?srv2 = "case reader srv of
                 None \<Rightarrow> srv\<lparr>state := ''Stopping''\<rparr>
               | Some r \<Rightarrow> srv\<lparr>state := ''Stopping'', reader := Some (r\<lparr>stop_flag := True\<rparr>)\<rparr>"
  let ?w2 = "w\<lparr>servers := (servers w)(sid \<mapsto> ?srv2)\<rparr>"
  have p2: "process ?srv2 = process srv"
    by (simp split: option.splits)
  show ?thesis
  proof (cases "process srv")
    case None
    let ?srv3 = "?srv2\<lparr>state := ''Stopped'', process := None, ps := None,
                       cpu_percent := 0, mem_mb := 0\<rparr>"
    have "handle_iff_active ?srv3"
      by (simp add: handle_iff_active_def)
    with assms
    have "window_inv (w\<lparr>stop_workers := (stop_workers w)(sid := None),
                        servers := (servers w)(sid \<mapsto> ?srv3)\<rparr>)"
      by (rule window_inv_servers) simp
    then show ?thesis
      using Some None
      by (simp add: stop_server_def stop_finalize_def Let_def window_inv_run_on_done
            split: option.splits)
  next
    case (Some h)
    have "handle_iff_active ?srv2"
      using Some by (simp add: handle_iff_active_def split: option.splits)
    with assms have "window_inv (?w2\<lparr>stop_workers := (stop_workers w)(sid \<mapsto>
                        \<lparr>worker_server_id = sid, worker_process = h\<rparr>)\<rparr>)"
      by (rule window_inv_servers) simp
    then show ?thesis
      using \<open>servers w sid = Some srv\<close> Some
      by (simp add: stop_server_def Let_def split: option.splits)
  qed
qed

lemma window_inv_on_log_line:
  "window_inv w \<Longrightarrow> window_inv (on_log_line sid line w)"
  unfolding on_log_line_def Let_def
  by (auto split: option.splits simp: window_inv_def handle_iff_active_def append_log_def)

lemma window_inv_reader_gone:
  "window_inv w \<Longrightarrow> window_inv (reader_gone sid w)"
  unfolding reader_gone_def
  by (auto split: option.splits simp: window_inv_def handle_iff_active_def)

lemma window_inv_start_server:
  "window_inv w \<Longrightarrow> window_inv (fst (start_server env sid w))"
  unfolding start_server_def Let_def
  by (auto split: option.splits sum.splits
           simp: window_inv_def handle_iff_active_def append_log_def)

lemma active_has_handle_on_process_finished:
  "active_has_handle w \<Longrightarrow> active_has_handle (on_process_finished sid rc w)"
  unfolding on_process_finished_def
  by (auto split: option.splits simp: active_has_handle_def append_log_def)

lemma on_process_finished_fields:
  assumes "servers w sid = Some srv"
  shows "\<exists>srv'. servers (on_process_finished sid rc w) sid = Some srv'
           \<and> state srv' = ''Stopped'' \<and> process srv' = process srv \<and> ps srv' = ps srv
           \<and> cpu_percent srv' = cpu_percent srv \<and> mem_mb srv' = mem_mb srv"
  using assms by (simp add: on_process_finished_def append_log_def)

lemma stop_finalize_fields:
  assumes "servers w sid = Some srv"
  shows "\<exists>srv'. servers (stop_finalize sid None w) sid = Some srv'
           \<and> state srv' = ''Stopped'' \<and> process srv' = None \<and> ps srv' = None
           \<and> cpu_percent srv' = 0 \<and> mem_mb srv' = 0"
  using assms by (simp add: stop_finalize_def)


lemma on_log_line_process:
  assumes "servers w sid = Some srv"
  shows "\<exists>srv'. servers (on_log_line sid line w) sid = Some srv' \<and> process srv' = process srv"
  using assms by (simp add: on_log_line_def append_log_def Let_def)

lemma window_inv_window0: "window_inv window0"
  by (simp add: window_inv_def window0_def new_runtime_def handle_iff_active_def)

text \<open>
  C1 fails on the code. From a fresh window, start and the first log line keep the
  invariant; the receipt of \<open>process_finished\<close> then sets the state to Stopped and
  leaves the handle in place, and the invariant is broken.
\<close>

theorem process_finished_breaks_handle_invariant:
  "window_inv window0 \<and>
   window_inv (fst (start_server env0 ''i'' window0)) \<and>
   window_inv (on_log_line ''i'' (ascii ''LogInit: up'') (fst (start_server env0 ''i'' window0))) \<and>
   \<not> window_inv (on_process_finished ''i'' 0
        (on_log_line ''i'' (ascii ''LogInit: up'') (fst (start_server env0 ''i'' window0))))"
proof -
  let ?w1 = "fst (start_server env0 ''i'' window0)"
  let ?w2 = "on_log_line ''i'' (ascii ''LogInit: up'') ?w1"
  let ?w3 = "on_process_finished ''i'' 0 ?w2"
  have i1: "window_inv ?w1"
    using window_inv_window0 by (rule window_inv_start_server)
  then have i2: "window_inv ?w2"
    by (rule window_inv_on_log_line)
  have "start_server env0 ''i'' window0 = (?w1, Started 42)"
    using start_window0_outcome by (metis prod.collapse)
  from start_server_Started [OF this] obtain srv1
    where "servers ?w1 ''i'' = Some srv1" "process srv1 = Some 42" by blast
  with on_log_line_process [of ?w1 "''i''" srv1 "ascii ''LogInit: up''"] obtain srv2
    where "servers ?w2 ''i'' = Some srv2" "process srv2 = Some 42" by auto
  with on_process_finished_fields [of ?w2 "''i''" srv2 0] obtain srv3
    where s3: "servers ?w3 ''i'' = Some srv3" "state srv3 = ''Stopped''"
      "process srv3 = Some 42" by auto
  have "\<not> handle_iff_active srv3"
    using s3(2,3) by (simp add: handle_iff_active_def)
  with s3(1) have "\<not> window_inv ?w3"
    unfolding window_inv_def by blast
  with window_inv_window0 i1 i2 show ?thesis by blast
qed

theorem process_finished_breaks_handle_invariant_witness:
  "\<exists>sid srv.
      servers (on_process_finished ''i'' 0
        (on_log_line ''i'' (ascii ''LogInit: up'') (fst (start_server env0 ''i'' window0)))) sid
        = Some srv
      \<and> \<not> handle_iff_active srv"
  using process_finished_breaks_handle_invariant
  by (simp add: window_inv_def)

text \<open>
  C2 fails on the code for the natural exit. On a running server with sampled metrics,
  \<open>_on_process_finished\<close> sets the state to Stopped and keeps the process handle, the
  \<open>psutil\<close> handle and both readings; \<open>_stop_finalize\<close>, on the same window, clears them.
\<close>

theorem process_finished_keeps_handle_and_metrics:
  "(\<exists>srv'. servers (on_process_finished ''i'' 0 running_window) ''i'' = Some srv'
      \<and> state srv' = ''Stopped'' \<and> process srv' = Some 42 \<and> ps srv' = Some 42
      \<and> cpu_percent srv' = 25 / 2 \<and> mem_mb srv' = 300) \<and>
   (\<exists>srv'. servers (stop_finalize ''i'' None running_window) ''i'' = Some srv'
      \<and> state srv' = ''Stopped'' \<and> process srv' = None \<and> ps srv' = None
      \<and> cpu_percent srv' = 0 \<and> mem_mb srv' = 0)"
  by (simp add: on_process_finished_def stop_finalize_def running_window_def append_log_def
        new_runtime_def)





section \<open>The command line and the effective port\<close>

















































end
